theory Spec2Isabelle
  imports Main "HOL-Library.Word"
begin

section \<open>Data model\<close>

text \<open>
  A request names an object by namespace and name (\<open>req.NamespacedName\<close>): the pair is
  (namespace, name).
\<close>

type_synonym namespaced_name = "string \<times> string"

text \<open>
  Modelled from the spec: the HomeAgent type of package api/v1 is declared outside the
  controller source. The controller reads \<open>Name\<close>, \<open>Namespace\<close> and \<open>Spec.Size\<close> and
  writes \<open>Status.NodeIps\<close>. \<open>Spec.Size\<close> is an int32: its address is stored in the
  \<open>*int32\<close> field \<open>Replicas\<close> and it is compared with the int32 \<open>ReadyReplicas\<close>.
\<close>

record home_agent =
  ha_name :: string
  ha_namespace :: string
  ha_size :: "32 word"
  ha_node_ips :: "string list"

record container =
  c_name :: string
  c_image :: string
  c_image_pull_policy :: string
  c_capabilities_add :: "string list"

text \<open>
  The fields of an apps/v1 Deployment that the controller sets or reads. \<open>Replicas\<close> is a
  pointer in the source, hence an option.
\<close>

record deployment =
  d_name :: string
  d_namespace :: string
  d_replicas :: "32 word option"
  d_match_labels :: "(string \<times> string) list"
  d_template_labels :: "(string \<times> string) list"
  d_containers :: "container list"
  d_ready_replicas :: "32 word"

record pod =
  pod_labels :: "(string \<times> string) list"
  pod_ip :: string

text \<open>\<open>ctrl.Result\<close>; \<open>RequeueAfter\<close> is a \<open>time.Duration\<close>, a count of nanoseconds.\<close>

record result =
  requeue :: bool
  requeue_after :: int

datatype store_error = NotFound | AlreadyExists | Other string

section \<open>The resource store behind the client\<close>

text \<open>
  The controller talks to the cluster through \<open>client.Client\<close>. The store holds the
  HomeAgent objects and the Deployments by namespaced name, and the pods in listing
  order. Every kind of call can fail with an error that is not a not-found error; which
  calls fail during one invocation is given by a fault assignment.
\<close>

record store =
  agents :: "namespaced_name \<rightharpoonup> home_agent"
  deployments :: "namespaced_name \<rightharpoonup> deployment"
  pods :: "pod list"

datatype op = OpGetAgent | OpGetDeployment | OpCreate | OpDelete | OpList | OpStatusUpdate

type_synonym faults = "op \<Rightarrow> string option"

definition no_faults :: faults where
  "no_faults = (\<lambda>_. None)"

text \<open>A read by namespaced name returns the object under that name, carrying that name.\<close>

definition client_get_agent :: "faults \<Rightarrow> store \<Rightarrow> namespaced_name \<Rightarrow> store_error + home_agent" where
  "client_get_agent f s key =
     (case f OpGetAgent of
        Some msg \<Rightarrow> Inl (Other msg)
      | None \<Rightarrow>
          (case agents s key of
             None \<Rightarrow> Inl NotFound
           | Some a \<Rightarrow> Inr (a\<lparr>ha_namespace := fst key, ha_name := snd key\<rparr>)))"

definition client_get_deployment :: "faults \<Rightarrow> store \<Rightarrow> namespaced_name \<Rightarrow> store_error + deployment" where
  "client_get_deployment f s key =
     (case f OpGetDeployment of
        Some msg \<Rightarrow> Inl (Other msg)
      | None \<Rightarrow>
          (case deployments s key of
             None \<Rightarrow> Inl NotFound
           | Some d \<Rightarrow> Inr (d\<lparr>d_namespace := fst key, d_name := snd key\<rparr>)))"

definition client_create :: "faults \<Rightarrow> store \<Rightarrow> deployment \<Rightarrow> store_error option \<times> store" where
  "client_create f s d =
     (case f OpCreate of
        Some msg \<Rightarrow> (Some (Other msg), s)
      | None \<Rightarrow>
          (case deployments s (d_namespace d, d_name d) of
             Some _ \<Rightarrow> (Some AlreadyExists, s)
           | None \<Rightarrow> (None, s\<lparr>deployments := (deployments s)((d_namespace d, d_name d) \<mapsto> d)\<rparr>)))"

definition client_delete :: "faults \<Rightarrow> store \<Rightarrow> deployment \<Rightarrow> store_error option \<times> store" where
  "client_delete f s d =
     (case f OpDelete of
        Some msg \<Rightarrow> (Some (Other msg), s)
      | None \<Rightarrow>
          (case deployments s (d_namespace d, d_name d) of
             None \<Rightarrow> (Some NotFound, s)
           | Some _ \<Rightarrow> (None, s\<lparr>deployments := (deployments s)((d_namespace d, d_name d) := None)\<rparr>)))"

text \<open>\<open>client.MatchingLabels\<close>: a pod is listed when it carries every label of the selector.\<close>

definition matching_labels :: "(string \<times> string) list \<Rightarrow> pod \<Rightarrow> bool" where
  "matching_labels sel p = list_all (\<lambda>(k, v). map_of (pod_labels p) k = Some v) sel"

definition client_list :: "faults \<Rightarrow> store \<Rightarrow> (string \<times> string) list \<Rightarrow> store_error + pod list" where
  "client_list f s sel =
     (case f OpList of
        Some msg \<Rightarrow> Inl (Other msg)
      | None \<Rightarrow> Inr (filter (matching_labels sel) (pods s)))"

text \<open>The status-only update replaces the status of the stored object and nothing else.\<close>

definition client_status_update :: "faults \<Rightarrow> store \<Rightarrow> home_agent \<Rightarrow> store_error option \<times> store" where
  "client_status_update f s a =
     (case f OpStatusUpdate of
        Some msg \<Rightarrow> (Some (Other msg), s)
      | None \<Rightarrow>
          (case agents s (ha_namespace a, ha_name a) of
             None \<Rightarrow> (Some NotFound, s)
           | Some stored \<Rightarrow>
               (None, s\<lparr>agents := (agents s)((ha_namespace a, ha_name a) \<mapsto>
                                   stored\<lparr>ha_node_ips := ha_node_ips a\<rparr>)\<rparr>)))"

section \<open>The controller\<close>

text \<open>Every call to the store is recorded with the error it returned, in call order.\<close>

datatype call =
    GetHomeAgent namespaced_name
  | GetDeployment namespaced_name
  | Create deployment
  | Delete deployment
  | ListPods "(string \<times> string) list"
  | StatusUpdate home_agent

type_synonym event = "call \<times> store_error option"

datatype panic = MakesliceLenOutOfRange | IndexOutOfRange

datatype outcome = Returned result "store_error option" | Panicked panic

text \<open>\<open>time.ParseDuration("800ms")\<close>, in nanoseconds.\<close>

definition wait_duration :: int where
  "wait_duration = 800000000"

definition empty_result :: result where
  "empty_result = \<lparr>requeue = False, requeue_after = 0\<rparr>"

definition CreateDeployment :: "home_agent \<Rightarrow> deployment" where
  "CreateDeployment agent =
     \<lparr>d_name = ha_name agent,
      d_namespace = ha_namespace agent,
      d_replicas = Some (ha_size agent),
      d_match_labels = [(''parent'', ha_name agent)],
      d_template_labels = [(''parent'', ha_name agent)],
      d_containers =
        [\<lparr>c_name = ''ha'',
          c_image = ''kismi/mo-daemon:latest'',
          c_image_pull_policy = ''Always'',
          c_capabilities_add = [''NET_ADMIN'']\<rparr>],
      d_ready_replicas = 0\<rparr>"

text \<open>
  \<open>DeleteDeployment\<close> has no result: it returns on any error of the read and drops the
  error of the delete.
\<close>

definition DeleteDeployment :: "faults \<Rightarrow> store \<Rightarrow> namespaced_name \<Rightarrow> store \<times> event list" where
  "DeleteDeployment f s req =
     (case client_get_deployment f s req of
        Inl err \<Rightarrow> (s, [(GetDeployment req, Some err)])
      | Inr d \<Rightarrow>
          (case client_delete f s d of
             (e, s') \<Rightarrow> (s', [(GetDeployment req, None), (Delete d, e)])))"

text \<open>
  The loop over \<open>pods.Items\<close>: an empty address ends the invocation before the write; the
  write \<open>podips[idx] = ip\<close> panics when the index is not below the length of the slice.
\<close>

datatype loop_outcome = Filled "string list" | MissingIp | IndexPanic

fun collect_ips :: "nat \<Rightarrow> pod list \<Rightarrow> string list \<Rightarrow> loop_outcome" where
  "collect_ips idx [] podips = Filled podips"
| "collect_ips idx (p # ps) podips =
     (if pod_ip p = [] then MissingIp
      else if idx < length podips then collect_ips (Suc idx) ps (podips[idx := pod_ip p])
      else IndexPanic)"

definition Reconcile :: "faults \<Rightarrow> store \<Rightarrow> namespaced_name \<Rightarrow> outcome \<times> store \<times> event list" where
  "Reconcile f s req =
     (case client_get_agent f s req of
        Inl err \<Rightarrow>
          if err = NotFound then
            (case DeleteDeployment f s req of
               (s', evs) \<Rightarrow> (Returned empty_result None, s', (GetHomeAgent req, Some err) # evs))
          else (Returned empty_result (Some err), s, [(GetHomeAgent req, Some err)])
      | Inr home_agent \<Rightarrow>
          (case client_get_deployment f s req of
             Inl err \<Rightarrow>
               if err = NotFound then
                 (case client_create f s (CreateDeployment home_agent) of
                    (Some err', s') \<Rightarrow>
                      (Returned empty_result (Some err'), s',
                       [(GetHomeAgent req, None), (GetDeployment req, Some err),
                        (Create (CreateDeployment home_agent), Some err')])
                  | (None, s') \<Rightarrow>
                      (Returned (empty_result\<lparr>requeue_after := wait_duration\<rparr>) None, s',
                       [(GetHomeAgent req, None), (GetDeployment req, Some err),
                        (Create (CreateDeployment home_agent), None)]))
               else
                 (Returned empty_result (Some err), s,
                  [(GetHomeAgent req, None), (GetDeployment req, Some err)])
           | Inr deployment \<Rightarrow>
               if sint (d_ready_replicas deployment) < sint (ha_size home_agent) then
                 (Returned (empty_result\<lparr>requeue_after := wait_duration\<rparr>) None, s,
                  [(GetHomeAgent req, None), (GetDeployment req, None)])
               else
                 (case client_list f s [(''parent'', ha_name home_agent)] of
                    Inl err \<Rightarrow>
                      (Returned empty_result (Some err), s,
                       [(GetHomeAgent req, None), (GetDeployment req, None),
                        (ListPods [(''parent'', ha_name home_agent)], Some err)])
                  | Inr items \<Rightarrow>
                      if sint (ha_size home_agent) < 0 then
                        (Panicked MakesliceLenOutOfRange, s,
                         [(GetHomeAgent req, None), (GetDeployment req, None),
                          (ListPods [(''parent'', ha_name home_agent)], None)])
                      else
                        (case collect_ips 0 items (replicate (nat (sint (ha_size home_agent))) []) of
                           MissingIp \<Rightarrow>
                             (Returned (empty_result\<lparr>requeue_after := wait_duration\<rparr>) None, s,
                              [(GetHomeAgent req, None), (GetDeployment req, None),
                               (ListPods [(''parent'', ha_name home_agent)], None)])
                         | IndexPanic \<Rightarrow>
                             (Panicked IndexOutOfRange, s,
                              [(GetHomeAgent req, None), (GetDeployment req, None),
                               (ListPods [(''parent'', ha_name home_agent)], None)])
                         | Filled podips \<Rightarrow>
                             (case client_status_update f s (home_agent\<lparr>ha_node_ips := podips\<rparr>) of
                                (Some err, s') \<Rightarrow>
                                  (Returned empty_result (Some err), s',
                                   [(GetHomeAgent req, None), (GetDeployment req, None),
                                    (ListPods [(''parent'', ha_name home_agent)], None),
                                    (StatusUpdate (home_agent\<lparr>ha_node_ips := podips\<rparr>), Some err)])
                              | (None, s') \<Rightarrow>
                                  (Returned empty_result None, s',
                                   [(GetHomeAgent req, None), (GetDeployment req, None),
                                    (ListPods [(''parent'', ha_name home_agent)], None),
                                    (StatusUpdate (home_agent\<lparr>ha_node_ips := podips\<rparr>), None)]))))))"

section \<open>Observations on one invocation\<close>

definition outcome_of :: "faults \<Rightarrow> store \<Rightarrow> namespaced_name \<Rightarrow> outcome" where
  "outcome_of f s req = fst (Reconcile f s req)"

definition store_after :: "faults \<Rightarrow> store \<Rightarrow> namespaced_name \<Rightarrow> store" where
  "store_after f s req = fst (snd (Reconcile f s req))"

definition events_of :: "faults \<Rightarrow> store \<Rightarrow> namespaced_name \<Rightarrow> event list" where
  "events_of f s req = snd (snd (Reconcile f s req))"

text \<open>The calls that write a workload: the controller has no other call on Deployments.\<close>

fun is_workload_write :: "call \<Rightarrow> bool" where
  "is_workload_write (Create _) = True"
| "is_workload_write (Delete _) = True"
| "is_workload_write _ = False"

text \<open>Invariant I1 at one identity: the workload exists exactly when the HomeAgent does.\<close>

definition workload_iff_desired :: "store \<Rightarrow> namespaced_name \<Rightarrow> bool" where
  "workload_iff_desired s key = ((deployments s key \<noteq> None) = (agents s key \<noteq> None))"

text \<open>
  The stores reached from \<open>s0\<close> by invocations of \<open>Reconcile\<close> alone, for any requests and
  with any calls failing.
\<close>

inductive reconcile_reachable :: "store \<Rightarrow> store \<Rightarrow> bool" where
  start: "reconcile_reachable s s"
| step: "reconcile_reachable s0 s \<Longrightarrow> Reconcile f s req = (out, s', evs) \<Longrightarrow> reconcile_reachable s0 s'"

section \<open>Scenarios\<close>

text \<open>The HomeAgent of the README, \<open>ha-sample\<close>, and the objects around it.\<close>

definition sample_key :: namespaced_name where
  "sample_key = (''default'', ''ha-sample'')"

definition sample_agent :: "32 word \<Rightarrow> string list \<Rightarrow> home_agent" where
  "sample_agent n ips =
     \<lparr>ha_name = ''ha-sample'', ha_namespace = ''default'', ha_size = n, ha_node_ips = ips\<rparr>"

definition sample_deployment :: "32 word \<Rightarrow> 32 word \<Rightarrow> deployment" where
  "sample_deployment n ready = (CreateDeployment (sample_agent n []))\<lparr>d_ready_replicas := ready\<rparr>"

definition sample_pod :: "string \<Rightarrow> pod" where
  "sample_pod ip = \<lparr>pod_labels = [(''parent'', ''ha-sample'')], pod_ip = ip\<rparr>"

text \<open>A HomeAgent of the given size and status, no Deployment, the given pod addresses.\<close>

definition fresh_store :: "32 word \<Rightarrow> string list \<Rightarrow> string list \<Rightarrow> store" where
  "fresh_store n ips pod_ips =
     \<lparr>agents = [sample_key \<mapsto> sample_agent n ips],
      deployments = Map.empty,
      pods = map sample_pod pod_ips\<rparr>"

text \<open>
  A HomeAgent of size \<open>n\<close>, a Deployment created for \<open>m\<close> replicas of which \<open>ready\<close> are
  ready, and pods with the given addresses.
\<close>

definition running_store :: "32 word \<Rightarrow> 32 word \<Rightarrow> 32 word \<Rightarrow> string list \<Rightarrow> store" where
  "running_store n m ready pod_ips =
     \<lparr>agents = [sample_key \<mapsto> sample_agent n []],
      deployments = [sample_key \<mapsto> sample_deployment m ready],
      pods = map sample_pod pod_ips\<rparr>"

text \<open>The HomeAgent was deleted, its Deployment is still there.\<close>

definition orphan_store :: store where
  "orphan_store =
     \<lparr>agents = Map.empty,
      deployments = [sample_key \<mapsto> sample_deployment 2 2],
      pods = map sample_pod [''2001:db8::1'', ''2001:db8::2'']\<rparr>"

definition empty_store :: store where
  "empty_store = \<lparr>agents = Map.empty, deployments = Map.empty, pods = []\<rparr>"

lemmas scenario_defs =
  sample_key_def sample_agent_def sample_deployment_def sample_pod_def fresh_store_def
  running_store_def orphan_store_def empty_store_def CreateDeployment_def no_faults_def

lemmas client_defs =
  client_get_agent_def client_get_deployment_def client_create_def client_delete_def
  client_list_def client_status_update_def matching_labels_def

lemmas observation_defs = outcome_of_def store_after_def events_of_def

section \<open>The store calls\<close>

lemma get_agent_key:
  "client_get_agent f s req = Inr a \<Longrightarrow> (ha_namespace a, ha_name a) = req"
  by (auto simp: client_get_agent_def split: option.splits)

lemma get_agent_Inr_iff:
  "client_get_agent f s req = Inr a \<longleftrightarrow>
     f OpGetAgent = None \<and>
     (\<exists>st. agents s req = Some st \<and> a = st\<lparr>ha_namespace := fst req, ha_name := snd req\<rparr>)"
  by (auto simp: client_get_agent_def split: option.splits)

lemma get_deployment_key:
  "client_get_deployment f s req = Inr d \<Longrightarrow> (d_namespace d, d_name d) = req"
  by (auto simp: client_get_deployment_def split: option.splits)


lemma get_deployment_NotFound:
  "client_get_deployment f s req = Inl NotFound \<longleftrightarrow>
     f OpGetDeployment = None \<and> deployments s req = None"
  by (auto simp: client_get_deployment_def split: option.splits)

section \<open>The address loop\<close>

lemma collect_ips_all:
  "\<forall>p\<in>set ps. pod_ip p \<noteq> [] \<Longrightarrow> idx + length ps \<le> length buf \<Longrightarrow>
   collect_ips idx ps buf = Filled (take idx buf @ map pod_ip ps @ drop (idx + length ps) buf)"
proof (induction ps arbitrary: idx buf)
  case Nil
  then show ?case by simp
next
  case (Cons p ps)
  have lt: "idx < length buf" using Cons.prems(2) by simp
  have "collect_ips (Suc idx) ps (buf[idx := pod_ip p]) =
        Filled (take (Suc idx) (buf[idx := pod_ip p]) @ map pod_ip ps @
                drop (Suc idx + length ps) (buf[idx := pod_ip p]))"
    using Cons.prems by (intro Cons.IH) auto
  moreover have "take (Suc idx) (buf[idx := pod_ip p]) = take idx buf @ [pod_ip p]"
    using lt by (simp add: take_Suc_conv_app_nth)
  moreover have "drop (Suc idx + length ps) (buf[idx := pod_ip p]) = drop (Suc idx + length ps) buf"
    by simp
  ultimately show ?case using Cons.prems lt by simp
qed

lemma collect_ips_Filled_nonempty:
  "collect_ips idx ps buf = Filled r \<Longrightarrow> \<forall>p\<in>set ps. pod_ip p \<noteq> []"
  by (induction ps arbitrary: idx buf) (auto split: if_splits)

text \<open>More addressed pods than the slice has room for: the write panics.\<close>

lemma collect_ips_overflow:
  "\<forall>p\<in>set ps. pod_ip p \<noteq> [] \<Longrightarrow> idx \<le> length buf \<Longrightarrow> length buf < idx + length ps \<Longrightarrow>
   collect_ips idx ps buf = IndexPanic"
  by (induction ps arbitrary: idx buf) auto

section \<open>What one invocation leaves alone\<close>

lemma Reconcile_agents_dom:
  "Reconcile f s req = (out, s', evs) \<Longrightarrow> (agents s' key \<noteq> None) = (agents s key \<noteq> None)"
  by (auto simp: Reconcile_def DeleteDeployment_def client_delete_def client_create_def
        client_status_update_def
        split: sum.splits option.splits prod.splits if_splits loop_outcome.splits)

lemma Reconcile_pods:
  "Reconcile f s req = (out, s', evs) \<Longrightarrow> pods s' = pods s"
  by (auto simp: Reconcile_def DeleteDeployment_def client_delete_def client_create_def
        client_status_update_def
        split: sum.splits option.splits prod.splits if_splits loop_outcome.splits)

lemma Reconcile_deployments_other:
  "Reconcile f s req = (out, s', evs) \<Longrightarrow> key \<noteq> req \<Longrightarrow> deployments s' key = deployments s key"
  by (auto simp: Reconcile_def DeleteDeployment_def client_delete_def client_create_def
        client_status_update_def CreateDeployment_def
        dest!: get_deployment_key get_agent_key
        split: sum.splits option.splits prod.splits if_splits loop_outcome.splits)

lemma Reconcile_preserves_iff:
  assumes "Reconcile f s req = (out, s', evs)" and "workload_iff_desired s req"
  shows "workload_iff_desired s' req"
  using assms
  by (auto simp: Reconcile_def DeleteDeployment_def client_delete_def client_create_def
        client_status_update_def CreateDeployment_def workload_iff_desired_def
        client_get_agent_def client_get_deployment_def
        split: sum.splits option.splits prod.splits if_splits loop_outcome.splits)

lemma Reconcile_collapse:
  "Reconcile f s req = (outcome_of f s req, store_after f s req, events_of f s req)"
  by (simp add: observation_defs)

section \<open>Claims\<close>

subsection \<open>Partial readiness\<close>

text \<open>
  C7. When the reads return the HomeAgent and the Deployment and the Deployment has fewer
  ready replicas than the HomeAgent's size, \<open>Reconcile\<close> returns a requeue after 800ms
  with no error, the store is unchanged, and the only calls are the two reads: no status
  write, no create, no delete.
\<close>

theorem partial_readiness_requeues:
  assumes "client_get_agent f s req = Inr home_agent"
      and "client_get_deployment f s req = Inr deployment"
      and "sint (d_ready_replicas deployment) < sint (ha_size home_agent)"
  shows "Reconcile f s req =
           (Returned \<lparr>requeue = False, requeue_after = 800000000\<rparr> None, s,
            [(GetHomeAgent req, None), (GetDeployment req, None)])"
  using assms by (simp add: Reconcile_def empty_result_def wait_duration_def)

text \<open>Size 3 with one ready replica.\<close>

theorem partial_readiness_requeues_witness:
  "client_get_agent no_faults (running_store 3 3 1 [''2001:db8::1'']) sample_key = Inr (sample_agent 3 [])
 \<and> client_get_deployment no_faults (running_store 3 3 1 [''2001:db8::1'']) sample_key =
       Inr (sample_deployment 3 1)
 \<and> sint (d_ready_replicas (sample_deployment 3 1)) < sint (ha_size (sample_agent 3 []))
 \<and> Reconcile no_faults (running_store 3 3 1 [''2001:db8::1'']) sample_key =
       (Returned \<lparr>requeue = False, requeue_after = 800000000\<rparr> None,
        running_store 3 3 1 [''2001:db8::1''],
        [(GetHomeAgent sample_key, None), (GetDeployment sample_key, None)])"
proof -
  have a: "client_get_agent no_faults (running_store 3 3 1 [''2001:db8::1'']) sample_key =
             Inr (sample_agent 3 [])"
    by (simp add: client_defs scenario_defs)
  have d: "client_get_deployment no_faults (running_store 3 3 1 [''2001:db8::1'']) sample_key =
             Inr (sample_deployment 3 1)"
    by (simp add: client_defs scenario_defs)
  have r: "sint (d_ready_replicas (sample_deployment 3 1)) < sint (ha_size (sample_agent 3 []))"
    by (simp add: scenario_defs)
  show ?thesis
    using partial_readiness_requeues [OF a d r] a d r by simp
qed

subsection \<open>Creation\<close>

text \<open>
  C4. When the read of the HomeAgent returns it and the read of the Deployment returns
  not-found, \<open>Reconcile\<close> issues exactly one create call; the created object has
  \<open>Replicas\<close> equal to the HomeAgent's size and the selector label \<open>parent\<close> = name; when
  the create call succeeds the object is stored and the result is a requeue after 800ms
  with no error; no status update is issued and the HomeAgents are unchanged.
\<close>

theorem create_when_absent:
  assumes "client_get_agent f s req = Inr home_agent"
      and "client_get_deployment f s req = Inl NotFound"
      and "Reconcile f s req = (out, s', evs)"
  shows "map fst evs = [GetHomeAgent req, GetDeployment req, Create (CreateDeployment home_agent)]
       \<and> d_replicas (CreateDeployment home_agent) = Some (ha_size home_agent)
       \<and> d_match_labels (CreateDeployment home_agent) = [(''parent'', ha_name home_agent)]
       \<and> ha_name home_agent = snd req
       \<and> (f OpCreate = None \<longrightarrow>
            out = Returned \<lparr>requeue = False, requeue_after = 800000000\<rparr> None
          \<and> s' = s\<lparr>deployments := (deployments s)(req \<mapsto> CreateDeployment home_agent)\<rparr>)
       \<and> agents s' = agents s
       \<and> (\<forall>a. StatusUpdate a \<notin> fst ` set evs)"
proof -
  have key: "(ha_namespace home_agent, ha_name home_agent) = req"
    using assms(1) by (rule get_agent_key)
  have absent: "deployments s req = None"
    using assms(2) by (simp add: get_deployment_NotFound)
  show ?thesis
    using assms key absent
    by (auto simp: Reconcile_def client_create_def CreateDeployment_def
          empty_result_def wait_duration_def split: option.splits prod.splits)
qed

text \<open>Size 2 and no Deployment: one create with two replicas, requeue after 800ms.\<close>

theorem create_when_absent_witness:
  "client_get_agent no_faults (fresh_store 2 [] []) sample_key = Inr (sample_agent 2 [])
 \<and> client_get_deployment no_faults (fresh_store 2 [] []) sample_key = Inl NotFound
 \<and> map fst (events_of no_faults (fresh_store 2 [] []) sample_key) =
       [GetHomeAgent sample_key, GetDeployment sample_key, Create (sample_deployment 2 0)]
 \<and> d_replicas (sample_deployment 2 0) = Some 2
 \<and> d_match_labels (sample_deployment 2 0) = [(''parent'', ''ha-sample'')]
 \<and> outcome_of no_faults (fresh_store 2 [] []) sample_key =
       Returned \<lparr>requeue = False, requeue_after = 800000000\<rparr> None
 \<and> deployments (store_after no_faults (fresh_store 2 [] []) sample_key) sample_key =
       Some (sample_deployment 2 0)
 \<and> agents (store_after no_faults (fresh_store 2 [] []) sample_key) = agents (fresh_store 2 [] [])"
proof -
  have a: "client_get_agent no_faults (fresh_store 2 [] []) sample_key = Inr (sample_agent 2 [])"
    by (simp add: client_defs scenario_defs)
  have d: "client_get_deployment no_faults (fresh_store 2 [] []) sample_key = Inl NotFound"
    by (simp add: client_defs scenario_defs)
  have ok: "no_faults OpCreate = None"
    by (simp add: no_faults_def)
  show ?thesis
    using create_when_absent [OF a d Reconcile_collapse] a d ok
    by (simp add: scenario_defs)
qed

subsection \<open>Cleanup\<close>



subsection \<open>Workload exists exactly when the HomeAgent does\<close>

text \<open>
  An invocation in which no call fails repairs the equivalence at its request from any
  store: it creates the Deployment of a HomeAgent that has none, and deletes the
  Deployment whose HomeAgent is gone.
\<close>

lemma Reconcile_creates_absent:
  assumes "Reconcile no_faults s req = (out, s', evs)"
      and "agents s req \<noteq> None" and "deployments s req = None"
  shows "\<exists>d. (Create d, None) \<in> set evs \<and> deployments s' req = Some d"
  using assms
  by (auto simp: Reconcile_def client_create_def CreateDeployment_def
        client_get_agent_def client_get_deployment_def no_faults_def
        split: option.splits)

lemma Reconcile_deletes_orphan:
  assumes "Reconcile no_faults s req = (out, s', evs)"
      and "agents s req = None" and "deployments s req \<noteq> None"
  shows "(\<exists>d. (Delete d, None) \<in> set evs) \<and> deployments s' req = None"
  using assms
  by (auto simp: Reconcile_def DeleteDeployment_def client_delete_def
        client_get_agent_def client_get_deployment_def no_faults_def
        split: option.splits)

lemma Reconcile_establishes_iff:
  assumes "Reconcile no_faults s req = (out, s', evs)"
  shows "workload_iff_desired s' req"
proof (cases "agents s req = None")
  case True
  note absent = this
  show ?thesis
  proof (cases "deployments s req = None")
    case True
    then have "workload_iff_desired s req"
      using absent by (simp add: workload_iff_desired_def)
    then show ?thesis by (rule Reconcile_preserves_iff [OF assms])
  next
    case False
    then show ?thesis
      using Reconcile_deletes_orphan [OF assms absent False]
        Reconcile_agents_dom [OF assms, of req] absent
      by (simp add: workload_iff_desired_def)
  qed
next
  case False
  note present = this
  show ?thesis
  proof (cases "deployments s req = None")
    case True
    then show ?thesis
      using Reconcile_creates_absent [OF assms present True]
        Reconcile_agents_dom [OF assms, of req] present
      by (auto simp: workload_iff_desired_def)
  next
    case False
    then have "workload_iff_desired s req"
      using present by (simp add: workload_iff_desired_def)
    then show ?thesis by (rule Reconcile_preserves_iff [OF assms])
  qed
qed

text \<open>Once the equivalence holds at an identity, no sequence of invocations breaks it.\<close>

lemma reachable_preserves_iff:
  assumes "reconcile_reachable s0 s" and "workload_iff_desired s0 key"
  shows "workload_iff_desired s key"
  using assms
proof (induction rule: reconcile_reachable.induct)
  case (start s)
  then show ?case .
next
  case (step s0 s f req out s' evs)
  have inv: "workload_iff_desired s key" using step.IH step.prems .
  show ?case
  proof (cases "key = req")
    case True
    then show ?thesis using Reconcile_preserves_iff[OF step.hyps(2)] inv by simp
  next
    case False
    then show ?thesis
      using inv Reconcile_deployments_other[OF step.hyps(2) False]
        Reconcile_agents_dom[OF step.hyps(2), of key]
      by (simp add: workload_iff_desired_def)
  qed
qed

text \<open>
  C8. Let \<open>s'\<close> be reached from \<open>s0\<close> by invocations of \<open>Reconcile\<close>, for whatever
  requests and with whatever calls failing. If in \<open>s0\<close> the Deployment of an identity
  exists exactly when its HomeAgent exists, the same holds in \<open>s'\<close>. And an \<open>s0\<close> that an
  invocation without failing calls has left, from any store at all, is such a store for
  the identity of that invocation: the invocation has created the Deployment of a
  HomeAgent that had none and deleted the Deployment of a HomeAgent that is gone, so the
  equivalence holds in \<open>s0\<close> and in \<open>s'\<close>.
\<close>

theorem workload_iff_desired_invariant:
  assumes "reconcile_reachable s0 s'"
  shows "(workload_iff_desired s0 key \<longrightarrow> workload_iff_desired s' key)
       \<and> (\<forall>s out evs. Reconcile no_faults s key = (out, s0, evs) \<longrightarrow>
             workload_iff_desired s0 key \<and> workload_iff_desired s' key
           \<and> (agents s key \<noteq> None \<and> deployments s key = None \<longrightarrow>
                (\<exists>d. (Create d, None) \<in> set evs \<and> deployments s0 key = Some d))
           \<and> (agents s key = None \<and> deployments s key \<noteq> None \<longrightarrow>
                (\<exists>d. (Delete d, None) \<in> set evs) \<and> deployments s0 key = None))"
proof (intro conjI allI impI)
  assume "workload_iff_desired s0 key"
  then show "workload_iff_desired s' key"
    by (rule reachable_preserves_iff [OF assms])
next
  fix s out evs
  assume r: "Reconcile no_faults s key = (out, s0, evs)"
  show est: "workload_iff_desired s0 key"
    using r by (rule Reconcile_establishes_iff)
  show "workload_iff_desired s' key"
    using est by (rule reachable_preserves_iff [OF assms])
next
  fix s out evs
  assume r: "Reconcile no_faults s key = (out, s0, evs)"
    and a: "agents s key \<noteq> None \<and> deployments s key = None"
  show "\<exists>d. (Create d, None) \<in> set evs \<and> deployments s0 key = Some d"
    by (rule Reconcile_creates_absent [OF r a [THEN conjunct1] a [THEN conjunct2]])
next
  fix s out evs
  assume r: "Reconcile no_faults s key = (out, s0, evs)"
    and a: "agents s key = None \<and> deployments s key \<noteq> None"
  have d: "(\<exists>d. (Delete d, None) \<in> set evs) \<and> deployments s0 key = None"
    by (rule Reconcile_deletes_orphan [OF r a [THEN conjunct1] a [THEN conjunct2]])
  show "\<exists>d. (Delete d, None) \<in> set evs"
    using d by (rule conjunct1)
  show "deployments s0 key = None"
    using d by (rule conjunct2)
qed

text \<open>
  A HomeAgent of size 2 without Deployment: the first invocation creates it. The
  orphaned Deployment: the first invocation deletes it. In both, the equivalence fails
  before the first invocation and holds after it and after the next one.
\<close>

theorem workload_iff_desired_invariant_witness:
  "\<not> workload_iff_desired (fresh_store 2 [] []) sample_key
 \<and> reconcile_reachable (store_after no_faults (fresh_store 2 [] []) sample_key)
       (store_after no_faults (store_after no_faults (fresh_store 2 [] []) sample_key) sample_key)
 \<and> workload_iff_desired (store_after no_faults (fresh_store 2 [] []) sample_key) sample_key
 \<and> workload_iff_desired
       (store_after no_faults (store_after no_faults (fresh_store 2 [] []) sample_key) sample_key)
       sample_key
 \<and> (\<exists>d. (Create d, None) \<in> set (events_of no_faults (fresh_store 2 [] []) sample_key)
        \<and> deployments (store_after no_faults (fresh_store 2 [] []) sample_key) sample_key = Some d)
 \<and> \<not> workload_iff_desired orphan_store sample_key
 \<and> reconcile_reachable (store_after no_faults orphan_store sample_key)
       (store_after no_faults (store_after no_faults orphan_store sample_key) sample_key)
 \<and> workload_iff_desired (store_after no_faults orphan_store sample_key) sample_key
 \<and> workload_iff_desired
       (store_after no_faults (store_after no_faults orphan_store sample_key) sample_key)
       sample_key
 \<and> (\<exists>d. (Delete d, None) \<in> set (events_of no_faults orphan_store sample_key))
 \<and> deployments (store_after no_faults orphan_store sample_key) sample_key = None"
proof -
  have f0: "agents (fresh_store 2 [] []) sample_key \<noteq> None
          \<and> deployments (fresh_store 2 [] []) sample_key = None"
    by (simp add: scenario_defs)
  have o0: "agents orphan_store sample_key = None
          \<and> deployments orphan_store sample_key \<noteq> None"
    by (simp add: scenario_defs)
  have fr: "reconcile_reachable (store_after no_faults (fresh_store 2 [] []) sample_key)
       (store_after no_faults (store_after no_faults (fresh_store 2 [] []) sample_key) sample_key)"
    by (rule step [OF start Reconcile_collapse])
  have orr: "reconcile_reachable (store_after no_faults orphan_store sample_key)
       (store_after no_faults (store_after no_faults orphan_store sample_key) sample_key)"
    by (rule step [OF start Reconcile_collapse])
  have nf: "\<not> workload_iff_desired (fresh_store 2 [] []) sample_key"
    using f0 by (simp add: workload_iff_desired_def)
  have no: "\<not> workload_iff_desired orphan_store sample_key"
    using o0 by (simp add: workload_iff_desired_def)
  show ?thesis
    using workload_iff_desired_invariant [OF fr, of sample_key]
      workload_iff_desired_invariant [OF orr, of sample_key]
      Reconcile_collapse [of no_faults "fresh_store 2 [] []" sample_key]
      Reconcile_collapse [of no_faults orphan_store sample_key]
      f0 o0 fr orr nf no
    by blast
qed

subsection \<open>An existing workload is left alone\<close>

text \<open>
  C9. In an invocation that is not a cleanup (the read of the HomeAgent does not return
  not-found), a Deployment that exists under the requested name is not modified: the
  Deployments of the store are the same afterwards and no create or delete call is
  issued, whatever its replica count and whatever the HomeAgent's size. The controller
  has no call that updates or patches a Deployment.
\<close>

theorem existing_workload_untouched:
  assumes "client_get_agent f s req \<noteq> Inl NotFound"
      and "deployments s req = Some d"
      and "Reconcile f s req = (out, s', evs)"
  shows "deployments s' = deployments s \<and> filter is_workload_write (map fst evs) = []"
  using assms
  by (auto simp: Reconcile_def client_status_update_def get_deployment_NotFound
        split: sum.splits option.splits prod.splits if_splits loop_outcome.splits)

text \<open>The size was raised to 3 after the Deployment was created for 2 replicas.\<close>

theorem existing_workload_untouched_witness:
  "client_get_agent no_faults (running_store 3 2 2 [''2001:db8::1'', ''2001:db8::2'']) sample_key
     \<noteq> Inl NotFound
 \<and> deployments (running_store 3 2 2 [''2001:db8::1'', ''2001:db8::2'']) sample_key =
       Some (sample_deployment 2 2)
 \<and> d_replicas (sample_deployment 2 2) = Some 2
 \<and> deployments (store_after no_faults (running_store 3 2 2 [''2001:db8::1'', ''2001:db8::2''])
       sample_key) = deployments (running_store 3 2 2 [''2001:db8::1'', ''2001:db8::2''])
 \<and> filter is_workload_write
       (map fst (events_of no_faults (running_store 3 2 2 [''2001:db8::1'', ''2001:db8::2''])
          sample_key)) = []"
proof -
  have a: "client_get_agent no_faults (running_store 3 2 2 [''2001:db8::1'', ''2001:db8::2''])
             sample_key \<noteq> Inl NotFound"
    by (simp add: client_defs scenario_defs)
  have d: "deployments (running_store 3 2 2 [''2001:db8::1'', ''2001:db8::2'']) sample_key =
             Some (sample_deployment 2 2)"
    by (simp add: scenario_defs)
  have n: "d_replicas (sample_deployment 2 2) = Some 2"
    by (simp add: scenario_defs)
  show ?thesis
    using existing_workload_untouched [OF a d Reconcile_collapse] a d n by simp
qed

subsection \<open>Errors of the store\<close>

text \<open>
  C6, amended. Outside the cleanup path (the read of the HomeAgent does not return
  not-found), every call of the invocation that fails, other than the read of the
  Deployment returning not-found, ends the invocation: \<open>Reconcile\<close> returns the empty
  result with that very error, the failed call is the last call, and no call is issued
  twice.
\<close>

theorem store_errors_returned_outside_cleanup:
  assumes "client_get_agent f s req \<noteq> Inl NotFound"
      and "Reconcile f s req = (out, s', evs)"
      and "(c, Some e) \<in> set evs"
      and "\<not> (c = GetDeployment req \<and> e = NotFound)"
  shows "out = Returned \<lparr>requeue = False, requeue_after = 0\<rparr> (Some e)
       \<and> last evs = (c, Some e) \<and> distinct (map fst evs)"
  using assms
  by (auto simp: Reconcile_def empty_result_def
        split: sum.splits option.splits prod.splits if_splits loop_outcome.splits)

text \<open>The listing of the pods times out.\<close>

theorem store_errors_returned_outside_cleanup_witness:
  "client_get_agent (no_faults(OpList := Some ''timeout''))
     (running_store 2 2 2 [''2001:db8::1'', ''2001:db8::2'']) sample_key \<noteq> Inl NotFound
 \<and> (ListPods [(''parent'', ''ha-sample'')], Some (Other ''timeout''))
       \<in> set (events_of (no_faults(OpList := Some ''timeout''))
                (running_store 2 2 2 [''2001:db8::1'', ''2001:db8::2'']) sample_key)
 \<and> outcome_of (no_faults(OpList := Some ''timeout''))
       (running_store 2 2 2 [''2001:db8::1'', ''2001:db8::2'']) sample_key =
     Returned \<lparr>requeue = False, requeue_after = 0\<rparr> (Some (Other ''timeout''))
 \<and> last (events_of (no_faults(OpList := Some ''timeout''))
       (running_store 2 2 2 [''2001:db8::1'', ''2001:db8::2'']) sample_key) =
     (ListPods [(''parent'', ''ha-sample'')], Some (Other ''timeout''))"
proof -
  have a: "client_get_agent (no_faults(OpList := Some ''timeout''))
             (running_store 2 2 2 [''2001:db8::1'', ''2001:db8::2'']) sample_key \<noteq> Inl NotFound"
    by (simp add: client_defs scenario_defs)
  have m: "(ListPods [(''parent'', ''ha-sample'')], Some (Other ''timeout''))
             \<in> set (events_of (no_faults(OpList := Some ''timeout''))
                      (running_store 2 2 2 [''2001:db8::1'', ''2001:db8::2'']) sample_key)"
    by (simp add: events_of_def Reconcile_def client_defs scenario_defs)
  have n: "\<not> (ListPods [(''parent'', ''ha-sample'')] = GetDeployment sample_key
              \<and> Other ''timeout'' = NotFound)"
    by simp
  show ?thesis
    using store_errors_returned_outside_cleanup [OF a Reconcile_collapse m n] a m by simp
qed

text \<open>
  In the cleanup path the error of the delete call is dropped: the HomeAgent is gone,
  the delete of its Deployment fails, and the invocation returns no error.
\<close>

theorem cleanup_swallows_delete_error:
  "Reconcile (no_faults(OpDelete := Some ''forbidden'')) orphan_store sample_key =
     (Returned \<lparr>requeue = False, requeue_after = 0\<rparr> None, orphan_store,
      [(GetHomeAgent sample_key, Some NotFound), (GetDeployment sample_key, None),
       (Delete (sample_deployment 2 2), Some (Other ''forbidden''))])"
  by (simp add: Reconcile_def DeleteDeployment_def empty_result_def client_defs scenario_defs)

subsection \<open>When the status is written\<close>

text \<open>
  C3, amended. If an invocation changes the HomeAgents of the store or issues a status
  update, then the reads returned the HomeAgent and the Deployment, the Deployment's
  ready replicas are at least the HomeAgent's size, the listing succeeded and every
  listed pod has a non-empty address. In every other case the status is untouched.
\<close>

theorem status_written_only_when_ready:
  assumes "Reconcile f s req = (out, s', evs)"
      and "agents s' \<noteq> agents s \<or> StatusUpdate a \<in> fst ` set evs"
  shows "\<exists>home_agent deployment items.
           client_get_agent f s req = Inr home_agent
         \<and> client_get_deployment f s req = Inr deployment
         \<and> sint (ha_size home_agent) \<le> sint (d_ready_replicas deployment)
         \<and> client_list f s [(''parent'', ha_name home_agent)] = Inr items
         \<and> (\<forall>p\<in>set items. pod_ip p \<noteq> [])"
  using assms
  by (auto simp: Reconcile_def DeleteDeployment_def client_delete_def client_create_def
        client_status_update_def
        dest: collect_ips_Filled_nonempty get_agent_key
        split: sum.splits option.splits prod.splits if_splits loop_outcome.splits)

text \<open>Size 2, two ready replicas, two pods with addresses: the status is written.\<close>

theorem status_written_only_when_ready_witness:
  "StatusUpdate (sample_agent 2 [''2001:db8::1'', ''2001:db8::2''])
     \<in> fst ` set (events_of no_faults (running_store 2 2 2 [''2001:db8::1'', ''2001:db8::2''])
                   sample_key)
 \<and> (\<exists>home_agent deployment items.
       client_get_agent no_faults (running_store 2 2 2 [''2001:db8::1'', ''2001:db8::2''])
         sample_key = Inr home_agent
     \<and> client_get_deployment no_faults (running_store 2 2 2 [''2001:db8::1'', ''2001:db8::2''])
         sample_key = Inr deployment
     \<and> sint (ha_size home_agent) \<le> sint (d_ready_replicas deployment)
     \<and> client_list no_faults (running_store 2 2 2 [''2001:db8::1'', ''2001:db8::2''])
         [(''parent'', ha_name home_agent)] = Inr items
     \<and> (\<forall>p\<in>set items. pod_ip p \<noteq> []))"
proof -
  have w: "StatusUpdate (sample_agent 2 [''2001:db8::1'', ''2001:db8::2''])
     \<in> fst ` set (events_of no_faults (running_store 2 2 2 [''2001:db8::1'', ''2001:db8::2''])
                   sample_key)"
    by (simp add: events_of_def Reconcile_def client_defs scenario_defs eval_nat_numeral)
  show ?thesis
    using status_written_only_when_ready [OF Reconcile_collapse disjI2, OF w] w by blast
qed

text \<open>
  The status is written although the ready replicas differ from the size: the size was
  lowered to 2, the Deployment still reports 3 ready replicas, two pods are listed.
\<close>

theorem status_written_with_more_ready_than_size:
  "d_ready_replicas (sample_deployment 3 3) \<noteq> ha_size (sample_agent 2 [])
 \<and> client_get_deployment no_faults (running_store 2 3 3 [''2001:db8::1'', ''2001:db8::2''])
       sample_key = Inr (sample_deployment 3 3)
 \<and> client_get_agent no_faults (running_store 2 3 3 [''2001:db8::1'', ''2001:db8::2''])
       sample_key = Inr (sample_agent 2 [])
 \<and> outcome_of no_faults (running_store 2 3 3 [''2001:db8::1'', ''2001:db8::2'']) sample_key =
       Returned \<lparr>requeue = False, requeue_after = 0\<rparr> None
 \<and> agents (store_after no_faults (running_store 2 3 3 [''2001:db8::1'', ''2001:db8::2''])
       sample_key) sample_key = Some (sample_agent 2 [''2001:db8::1'', ''2001:db8::2''])"
  by (simp add: observation_defs Reconcile_def empty_result_def client_defs scenario_defs
        eval_nat_numeral)

text \<open>
  Fewer pods listed than the size: the slice keeps its empty strings, and they are
  written to the status.
\<close>

lemma status_padded_with_empty_addresses:
  "agents (store_after no_faults (running_store 2 2 2 [''2001:db8::1'']) sample_key) sample_key =
     Some (sample_agent 2 [''2001:db8::1'', []])"
  by (simp add: observation_defs Reconcile_def empty_result_def client_defs scenario_defs
        eval_nat_numeral)

subsection \<open>Convergence\<close>

text \<open>
  C1, amended. When the reads return the HomeAgent and a Deployment with at least as many
  ready replicas as the size N, and the listing returns exactly N pods, each with a
  non-empty address, \<open>Reconcile\<close> issues one status update carrying exactly those N
  addresses in listing order. When the update succeeds, the stored status holds them and
  the result is the empty result with no error; when the update fails, its error is
  returned and the store is unchanged.
\<close>

theorem convergence_writes_status:
  assumes "client_get_agent f s req = Inr home_agent"
      and "client_get_deployment f s req = Inr deployment"
      and "sint (ha_size home_agent) \<le> sint (d_ready_replicas deployment)"
      and "client_list f s [(''parent'', ha_name home_agent)] = Inr items"
      and "int (length items) = sint (ha_size home_agent)"
      and "\<forall>p\<in>set items. pod_ip p \<noteq> []"
      and "Reconcile f s req = (out, s', evs)"
  shows "map fst evs =
           [GetHomeAgent req, GetDeployment req, ListPods [(''parent'', ha_name home_agent)],
            StatusUpdate (home_agent\<lparr>ha_node_ips := map pod_ip items\<rparr>)]
       \<and> (f OpStatusUpdate = None \<longrightarrow>
            out = Returned \<lparr>requeue = False, requeue_after = 0\<rparr> None
          \<and> s' = s\<lparr>agents := (agents s)(req \<mapsto>
                      (the (agents s req))\<lparr>ha_node_ips := map pod_ip items\<rparr>)\<rparr>)
       \<and> (\<forall>msg. f OpStatusUpdate = Some msg \<longrightarrow>
            out = Returned \<lparr>requeue = False, requeue_after = 0\<rparr> (Some (Other msg)) \<and> s' = s)"
proof -
  have key: "(ha_namespace home_agent, ha_name home_agent) = req"
    using assms(1) by (rule get_agent_key)
  obtain st where st: "agents s req = Some st"
    using assms(1) by (auto simp: get_agent_Inr_iff)
  have n: "nat (sint (ha_size home_agent)) = length items"
    using assms(5) by simp
  have "collect_ips 0 items (replicate (length items) []) =
          Filled (take 0 (replicate (length items) []) @ map pod_ip items @
                  drop (0 + length items) (replicate (length items) []))"
    using assms(6) by (intro collect_ips_all) auto
  then have loop: "collect_ips 0 items (replicate (nat (sint (ha_size home_agent))) []) =
          Filled (map pod_ip items)"
    using n by simp
  have nonneg: "\<not> sint (ha_size home_agent) < 0"
    using assms(5) by linarith
  show ?thesis
    using assms(1,2,3,4,7) key st loop nonneg
    by (auto simp: Reconcile_def client_status_update_def empty_result_def
          split: option.splits)
qed

text \<open>The full scenario: size 2, both replicas ready, two addresses.\<close>

theorem convergence_writes_status_witness:
  "client_get_agent no_faults (running_store 2 2 2 [''2001:db8::1'', ''2001:db8::2'']) sample_key =
     Inr (sample_agent 2 [])
 \<and> client_get_deployment no_faults (running_store 2 2 2 [''2001:db8::1'', ''2001:db8::2''])
     sample_key = Inr (sample_deployment 2 2)
 \<and> client_list no_faults (running_store 2 2 2 [''2001:db8::1'', ''2001:db8::2''])
     [(''parent'', ''ha-sample'')] = Inr [sample_pod ''2001:db8::1'', sample_pod ''2001:db8::2'']
 \<and> map fst (events_of no_faults (running_store 2 2 2 [''2001:db8::1'', ''2001:db8::2''])
     sample_key) =
     [GetHomeAgent sample_key, GetDeployment sample_key, ListPods [(''parent'', ''ha-sample'')],
      StatusUpdate (sample_agent 2 [''2001:db8::1'', ''2001:db8::2''])]
 \<and> outcome_of no_faults (running_store 2 2 2 [''2001:db8::1'', ''2001:db8::2'']) sample_key =
     Returned \<lparr>requeue = False, requeue_after = 0\<rparr> None
 \<and> agents (store_after no_faults (running_store 2 2 2 [''2001:db8::1'', ''2001:db8::2''])
     sample_key) sample_key = Some (sample_agent 2 [''2001:db8::1'', ''2001:db8::2''])"
proof -
  have a: "client_get_agent no_faults (running_store 2 2 2 [''2001:db8::1'', ''2001:db8::2''])
             sample_key = Inr (sample_agent 2 [])"
    by (simp add: client_defs scenario_defs)
  have d: "client_get_deployment no_faults (running_store 2 2 2 [''2001:db8::1'', ''2001:db8::2''])
             sample_key = Inr (sample_deployment 2 2)"
    by (simp add: client_defs scenario_defs)
  have r: "sint (ha_size (sample_agent 2 [])) \<le> sint (d_ready_replicas (sample_deployment 2 2))"
    by (simp add: scenario_defs)
  have l: "client_list no_faults (running_store 2 2 2 [''2001:db8::1'', ''2001:db8::2''])
             [(''parent'', ha_name (sample_agent 2 []))] =
           Inr [sample_pod ''2001:db8::1'', sample_pod ''2001:db8::2'']"
    by (simp add: client_defs scenario_defs)
  have n: "int (length [sample_pod ''2001:db8::1'', sample_pod ''2001:db8::2'']) =
           sint (ha_size (sample_agent 2 []))"
    by (simp add: scenario_defs)
  have e: "\<forall>p\<in>set [sample_pod ''2001:db8::1'', sample_pod ''2001:db8::2'']. pod_ip p \<noteq> []"
    by (simp add: scenario_defs)
  have ok: "no_faults OpStatusUpdate = None"
    by (simp add: no_faults_def)
  show ?thesis
    using convergence_writes_status [OF a d r l n e Reconcile_collapse] a d l ok
    by (simp add: scenario_defs)
qed

text \<open>
  The same scenario with a failing status update: the invocation ends with the error of
  the update, not with success, and the status is not written.
\<close>

theorem convergence_fails_when_update_fails:
  "client_get_agent (no_faults(OpStatusUpdate := Some ''conflict''))
     (running_store 2 2 2 [''2001:db8::1'', ''2001:db8::2'']) sample_key = Inr (sample_agent 2 [])
 \<and> client_get_deployment (no_faults(OpStatusUpdate := Some ''conflict''))
     (running_store 2 2 2 [''2001:db8::1'', ''2001:db8::2'']) sample_key =
     Inr (sample_deployment 2 2)
 \<and> client_list (no_faults(OpStatusUpdate := Some ''conflict''))
     (running_store 2 2 2 [''2001:db8::1'', ''2001:db8::2'']) [(''parent'', ''ha-sample'')] =
     Inr [sample_pod ''2001:db8::1'', sample_pod ''2001:db8::2'']
 \<and> outcome_of (no_faults(OpStatusUpdate := Some ''conflict''))
     (running_store 2 2 2 [''2001:db8::1'', ''2001:db8::2'']) sample_key =
     Returned \<lparr>requeue = False, requeue_after = 0\<rparr> (Some (Other ''conflict''))
 \<and> agents (store_after (no_faults(OpStatusUpdate := Some ''conflict''))
     (running_store 2 2 2 [''2001:db8::1'', ''2001:db8::2'']) sample_key) sample_key =
     Some (sample_agent 2 [])"
  by (simp add: observation_defs Reconcile_def empty_result_def client_defs scenario_defs
        eval_nat_numeral)

subsection \<open>The index writes of the address loop\<close>

text \<open>
  Whenever more pods are listed than the size and all of them have addresses, the
  invocation panics at the write past the end of the slice.
\<close>

lemma longer_listing_panics:
  assumes "client_get_agent f s req = Inr home_agent"
      and "client_get_deployment f s req = Inr deployment"
      and "sint (ha_size home_agent) \<le> sint (d_ready_replicas deployment)"
      and "client_list f s [(''parent'', ha_name home_agent)] = Inr items"
      and "0 \<le> sint (ha_size home_agent)"
      and "sint (ha_size home_agent) < int (length items)"
      and "\<forall>p\<in>set items. pod_ip p \<noteq> []"
  shows "fst (Reconcile f s req) = Panicked IndexOutOfRange"
proof -
  have "collect_ips 0 items (replicate (nat (sint (ha_size home_agent))) []) = IndexPanic"
    using assms(5,6,7) by (intro collect_ips_overflow) auto
  then show ?thesis
    using assms(1,2,3,4,5) by (simp add: Reconcile_def)
qed

text \<open>
  C10. The claim is that the writes \<open>podips[idx] = ip\<close> stay within the slice of length
  size for every listing. With size 1, one ready replica and two listed pods that have
  addresses, the second write is at index 1 of a slice of length 1: the invocation
  panics.
\<close>

theorem more_pods_than_size_panics:
  "Reconcile no_faults (running_store 1 1 1 [''2001:db8::1'', ''2001:db8::2'']) sample_key =
     (Panicked IndexOutOfRange, running_store 1 1 1 [''2001:db8::1'', ''2001:db8::2''],
      [(GetHomeAgent sample_key, None), (GetDeployment sample_key, None),
       (ListPods [(''parent'', ''ha-sample'')], None)])"
  by (simp add: Reconcile_def client_defs scenario_defs eval_nat_numeral)

subsection \<open>Two invocations in a row\<close>




end
